theory Spec2Isabelle
  imports Main
begin

section \<open>Text the program builds\<close>

text \<open>
  The program formats integers into strings (\<^verbatim>\<open>f"chunk-{i}"\<close>,
  \<^verbatim>\<open>f"Page {int(...)}"\<close>) and joins strings with a separator.
  \<open>str_nat\<close> and \<open>str_int\<close> are Python's \<^verbatim>\<open>str\<close> on integers,
  \<open>join\<close> is \<^verbatim>\<open>sep.join(xs)\<close>.
\<close>

definition digit :: "nat \<Rightarrow> char" where
  "digit d = ''0123456789'' ! d"

fun str_nat :: "nat \<Rightarrow> string" where
  "str_nat n = (if n < 10 then [digit n] else str_nat (n div 10) @ [digit (n mod 10)])"

declare str_nat.simps [simp del]

definition str_int :: "int \<Rightarrow> string" where
  "str_int i = (if i < 0 then CHR ''-'' # str_nat (nat (- i)) else str_nat (nat i))"

fun join :: "string \<Rightarrow> string list \<Rightarrow> string" where
  "join sep [] = []"
| "join sep [x] = x"
| "join sep (x # y # ys) = x @ sep @ join sep (y # ys)"

section \<open>Data\<close>

text \<open>
  A loaded page or a chunk is a langchain \<^verbatim>\<open>Document\<close>; the program reads its
  \<^verbatim>\<open>page_content\<close> only.
\<close>

record document =
  page_content :: string
  source_page :: nat

text \<open>
  The metadata dictionary of an index entry. The program writes the two keys
  \<^verbatim>\<open>"chunk_id"\<close> (an integer) and \<^verbatim>\<open>"text"\<close> (a string) and reads the same two with
  \<^verbatim>\<open>.get\<close>; a field is \<open>None\<close> when the key is missing.
\<close>

record metadata =
  md_chunk_id :: "int option"
  md_text :: "string option"

text \<open>A match of a query response; \<open>match_metadata\<close> is \<open>None\<close> when the match carries none.\<close>

record match =
  match_id :: string
  match_metadata :: "metadata option"

text \<open>The dictionaries \<^verbatim>\<open>{"Text": ..., "Page": ...}\<close> built by the retriever.\<close>

record relevant_section =
  Text :: string
  Page :: int

text \<open>
  A \<^verbatim>\<open>HuggingFaceEmbeddings\<close> object: \<open>handle_id\<close> is the object's identity
  (two constructions give two objects), \<open>model_name\<close> the model it was built for.
\<close>

record hf_embeddings =
  handle_id :: nat
  model_name :: string

datatype error =
    ProvisioningError
  | DocumentReadError
  | ChunkingError
  | EmbeddingError
  | UpsertError
  | RetrievalError
  | GenerationError
  | MetadataError
  | IndexError
  | AttributeError

section \<open>The external services\<close>

text \<open>
  Every call that leaves the program is an event of the trace. \<open>'v\<close> is the type of
  embedding vectors, which the program never inspects.
\<close>

datatype 'v event =
    ListIndexes
  | CreateIndex string nat string string string
  | LoadDocument string
  | NewEmbeddings string
  | EmbedQuery hf_embeddings string
  | Upsert string "(string \<times> 'v \<times> metadata) list"
  | Query string 'v nat bool
  | ChatCompletion string "(string \<times> string) list"

text \<open>
  The world outside the program: the index names of the vector service, the number of
  embedding objects constructed so far, and the calls made so far, oldest first.
\<close>

record 'v world =
  index_names :: "string list"
  next_handle :: nat
  trace :: "'v event list"

text \<open>
  What the services answer. \<open>fault\<close> says whether a call fails, given the calls
  made before it; the other fields are the answers of the calls that succeed.
  \<open>split_documents\<close> is the text splitter of the library, configured with
  chunk size and overlap.
\<close>

record 'v env =
  fault :: "'v event list \<Rightarrow> 'v event \<Rightarrow> error option"
  documents :: "string \<Rightarrow> document list"
  split_documents :: "nat \<Rightarrow> nat \<Rightarrow> document list \<Rightarrow> error + document list"
  embedding_of :: "string \<Rightarrow> string \<Rightarrow> 'v"
  query_response :: "'v event list \<Rightarrow> string \<Rightarrow> 'v \<Rightarrow> nat \<Rightarrow> bool \<Rightarrow> match list"
  completion :: "'v event list \<Rightarrow> string \<Rightarrow> (string \<times> string) list \<Rightarrow> string list"

type_synonym ('a, 'v) prog = "'v world \<Rightarrow> (error + 'a) \<times> 'v world"

definition log :: "'v event \<Rightarrow> 'v world \<Rightarrow> 'v world" where
  "log ev w = w\<lparr>trace := trace w @ [ev]\<rparr>"

definition ret :: "'a \<Rightarrow> ('a, 'v) prog" where
  "ret x w = (Inr x, w)"

definition raise :: "error \<Rightarrow> ('a, 'v) prog" where
  "raise e w = (Inl e, w)"

text \<open>Sequencing: an exception of the first part skips the rest and keeps the world.\<close>

definition seq :: "('a, 'v) prog \<Rightarrow> ('a \<Rightarrow> ('b, 'v) prog) \<Rightarrow> ('b, 'v) prog" where
  "seq m f w = (case m w of (Inl e, w') \<Rightarrow> (Inl e, w') | (Inr x, w') \<Rightarrow> f x w')"

text \<open>One external call: it is logged, and either raises or answers \<open>x\<close>.\<close>

definition call :: "'v env \<Rightarrow> 'v event \<Rightarrow> 'a \<Rightarrow> ('a, 'v) prog" where
  "call env ev x w =
     (case fault env (trace w) ev of
        Some e \<Rightarrow> (Inl e, log ev w)
      | None \<Rightarrow> (Inr x, log ev w))"

definition list_indexes :: "'v env \<Rightarrow> (string list, 'v) prog" where
  "list_indexes env w = call env ListIndexes (index_names w) w"

definition create_index ::
  "'v env \<Rightarrow> string \<Rightarrow> nat \<Rightarrow> string \<Rightarrow> string \<Rightarrow> string \<Rightarrow> (unit, 'v) prog" where
  "create_index env name dimension metric cloud region w =
     (case call env (CreateIndex name dimension metric cloud region) () w of
        (Inl e, w') \<Rightarrow> (Inl e, w')
      | (Inr u, w') \<Rightarrow> (Inr (), w'\<lparr>index_names := index_names w' @ [name]\<rparr>))"

definition new_embeddings :: "'v env \<Rightarrow> string \<Rightarrow> (hf_embeddings, 'v) prog" where
  "new_embeddings env name w =
     (case call env (NewEmbeddings name) \<lparr>handle_id = next_handle w, model_name = name\<rparr> w of
        (Inl e, w') \<Rightarrow> (Inl e, w')
      | (Inr emb, w') \<Rightarrow> (Inr emb, w'\<lparr>next_handle := Suc (next_handle w')\<rparr>))"

definition embed_query :: "'v env \<Rightarrow> hf_embeddings \<Rightarrow> string \<Rightarrow> ('v, 'v) prog" where
  "embed_query env emb txt = call env (EmbedQuery emb txt) (embedding_of env (model_name emb) txt)"

text \<open>
  An index handle is \<open>None\<close> when the session holds no index yet; a method call on
  it then raises \<^verbatim>\<open>AttributeError\<close> before anything leaves the program.
\<close>

definition upsert ::
  "'v env \<Rightarrow> string option \<Rightarrow> (string \<times> 'v \<times> metadata) list \<Rightarrow> (unit, 'v) prog" where
  "upsert env index vectors =
     (case index of
        None \<Rightarrow> raise AttributeError
      | Some name \<Rightarrow> call env (Upsert name vectors) ())"

definition query_index ::
  "'v env \<Rightarrow> string option \<Rightarrow> 'v \<Rightarrow> nat \<Rightarrow> bool \<Rightarrow> (match list, 'v) prog" where
  "query_index env index vector top_k include_metadata w =
     (case index of
        None \<Rightarrow> raise AttributeError w
      | Some name \<Rightarrow>
          call env (Query name vector top_k include_metadata)
            (query_response env (trace w) name vector top_k include_metadata) w)"

definition chat_completions_create ::
  "'v env \<Rightarrow> (string \<times> string) list \<Rightarrow> string \<Rightarrow> (string list, 'v) prog" where
  "chat_completions_create env messages model w =
     call env (ChatCompletion model messages) (completion env (trace w) model messages) w"

section \<open>The program\<close>

text \<open>
  The functions of \<^verbatim>\<open>app.py\<close>, under their names. What they print to the console and
  draw on the page is left out; the clients of the vector service and of the completion
  service are built from the environment without a call of their own.
\<close>

subsection \<open>initialize_pinecone\<close>

text \<open>
  Returns the index name; the client object \<^verbatim>\<open>pc\<close> returned beside it holds no
  state of its own, and \<^verbatim>\<open>pc.Index(index_name)\<close> is the handle of that name.
\<close>

definition initialize_pinecone :: "'v env \<Rightarrow> (string, 'v) prog" where
  "initialize_pinecone env =
     (let index_name = ''titanic'' in
      seq (list_indexes env) (\<lambda>names.
      seq (if index_name \<notin> set names
           then create_index env index_name 768 ''euclidean'' ''aws'' ''us-east-1''
           else ret ()) (\<lambda>_.
      ret index_name)))"

subsection \<open>reading_document, chunk_data\<close>

definition reading_document :: "'v env \<Rightarrow> string \<Rightarrow> (document list, 'v) prog" where
  "reading_document env file = call env (LoadDocument file) (documents env file)"

text \<open>The splitter works inside the process: no call leaves the program.\<close>

definition chunk_data :: "'v env \<Rightarrow> document list \<Rightarrow> nat \<Rightarrow> nat \<Rightarrow> (document list, 'v) prog" where
  "chunk_data env docs chunk_size chunk_overlap w =
     (split_documents env chunk_size chunk_overlap docs, w)"

subsection \<open>generate_and_upload_embeddings\<close>

text \<open>
  The loop \<^verbatim>\<open>for i, chunk in enumerate(chunks)\<close>; \<open>i\<close> is the counter of
  \<^verbatim>\<open>enumerate\<close>.
\<close>

fun upload_loop ::
  "'v env \<Rightarrow> hf_embeddings \<Rightarrow> string option \<Rightarrow> nat \<Rightarrow> document list \<Rightarrow> (unit, 'v) prog" where
  "upload_loop env embeddings index i [] w = (Inr (), w)"
| "upload_loop env embeddings index i (chunk # chunks) w =
     (let chunk_text = page_content chunk in
      case embed_query env embeddings chunk_text w of
        (Inl e, w1) \<Rightarrow> (Inl e, w1)
      | (Inr embedding, w1) \<Rightarrow>
          (let metadata = \<lparr>md_chunk_id = Some (int i), md_text = Some chunk_text\<rparr> in
           case upsert env index [(''chunk-'' @ str_nat i, embedding, metadata)] w1 of
             (Inl e, w2) \<Rightarrow> (Inl e, w2)
           | (Inr u, w2) \<Rightarrow> upload_loop env embeddings index (Suc i) chunks w2))"

definition generate_and_upload_embeddings ::
  "'v env \<Rightarrow> document list \<Rightarrow> string option \<Rightarrow> (unit, 'v) prog" where
  "generate_and_upload_embeddings env chunks index =
     seq (new_embeddings env ''sentence-transformers/all-mpnet-base-v2'') (\<lambda>embeddings.
     upload_loop env embeddings index 0 chunks)"

subsection \<open>retrieve_related_sections\<close>

text \<open>
  The loop over \<^verbatim>\<open>response['matches']\<close>, appending to \<open>results\<close>. Reading
  \<^verbatim>\<open>match['metadata']\<close> of a match without metadata raises.
\<close>

fun sections_loop :: "relevant_section list \<Rightarrow> match list \<Rightarrow> error + relevant_section list" where
  "sections_loop results [] = Inr results"
| "sections_loop results (m # ms) =
     (case match_metadata m of
        None \<Rightarrow> Inl MetadataError
      | Some metadata \<Rightarrow>
          sections_loop
            (results @ [\<lparr>Text = (case md_text metadata of None \<Rightarrow> [] | Some t \<Rightarrow> t),
                         Page = (case md_chunk_id metadata of None \<Rightarrow> - 1 | Some c \<Rightarrow> c)\<rparr>])
            ms)"

definition retrieve_related_sections ::
  "'v env \<Rightarrow> string \<Rightarrow> hf_embeddings \<Rightarrow> string option \<Rightarrow> (relevant_section list, 'v) prog" where
  "retrieve_related_sections env user_query embeddings index =
     seq (embed_query env embeddings user_query) (\<lambda>query_vector.
     seq (query_index env index query_vector 5 True) (\<lambda>matches w.
     (sections_loop [] matches, w)))"

subsection \<open>generate_response\<close>

text \<open>
  \<open>Page\<close> holds a number; \<^verbatim>\<open>int(res['Page'])\<close> is that integer, formatted in decimal.
  A message is the pair of its role and its content.
\<close>

definition generate_response ::
  "'v env \<Rightarrow> string \<Rightarrow> relevant_section list \<Rightarrow> (string, 'v) prog" where
  "generate_response env user_query relevant_sections =
     (let context = join ''\<newline>\<newline>''
            (map (\<lambda>res. ''Page '' @ str_int (Page res) @ '':\<newline>'' @ Text res) relevant_sections);
          prompt =
            ''\<newline>        You are a knowledgeable assistant specializing in Titanic Data Analysis.''
            @ ''\<newline>        Use the following context information to address the user''
            @ [CHR 0x27] @ ''s query.''
            @ ''\<newline>\<newline>        Context:\<newline>        '' @ context
            @ ''\<newline>\<newline>        User Query:\<newline>        '' @ user_query
            @ ''\<newline>\<newline>        Generate a clear, precise, and actionable response.\<newline>    ''
      in
      seq (chat_completions_create env [(''user'', prompt)] ''gpt-4o-mini'') (\<lambda>choices.
      case choices of
        [] \<Rightarrow> raise IndexError
      | content # _ \<Rightarrow> ret content))"

subsection \<open>get_result\<close>

definition get_result ::
  "'v env \<Rightarrow> string \<Rightarrow> hf_embeddings \<Rightarrow> string option \<Rightarrow> (string, 'v) prog" where
  "get_result env user_query embeddings index =
     seq (retrieve_related_sections env user_query embeddings index) (\<lambda>relevant_sections.
     if relevant_sections = [] then ret ''No relevant sections found.''
     else generate_response env user_query relevant_sections)"

subsection \<open>The Streamlit script\<close>

text \<open>
  The script runs from top to bottom at every interaction; \<^verbatim>\<open>st.session_state\<close>
  survives from one run to the next, also when a run ends with an exception. A key that
  is missing and the default the script writes for it before any read are one state;
  \<open>embeddings\<close> is \<open>None\<close> until the object has been constructed.
\<close>

datatype page = first_page | chatbot

record session_state =
  page :: page
  index_initialized :: bool
  pinecone_index :: "string option"
  embeddings :: "hf_embeddings option"

definition new_session :: session_state where
  "new_session =
     \<lparr>page = first_page, index_initialized = False, pinecone_index = None, embeddings = None\<rparr>"

text \<open>The body of \<^verbatim>\<open>if st.button(...)\<close>, lines 138 to 148.\<close>

definition start_button ::
  "'v env \<Rightarrow> session_state \<Rightarrow> 'v world \<Rightarrow> (error + unit) \<times> session_state \<times> 'v world" where
  "start_button env s w =
     (case initialize_pinecone env w of
        (Inl e, w1) \<Rightarrow> (Inl e, s, w1)
      | (Inr index_name, w1) \<Rightarrow>
          (let s1 = s\<lparr>pinecone_index := Some index_name\<rparr> in
           if \<not> index_initialized s1 then
             (case seq (reading_document env ''Knowledge_base/titanic_final_eda.pdf'') (\<lambda>doc.
                   seq (chunk_data env doc 1000 50) (\<lambda>chunks.
                   generate_and_upload_embeddings env chunks (pinecone_index s1))) w1 of
                (Inl e, w2) \<Rightarrow> (Inl e, s1, w2)
              | (Inr u, w2) \<Rightarrow> (Inr (), s1\<lparr>index_initialized := True, page := chatbot\<rparr>, w2))
           else (Inr (), s1\<lparr>page := chatbot\<rparr>, w1)))"

text \<open>
  One run of the script. \<open>clicked\<close> is what \<^verbatim>\<open>st.button\<close> returns, read on the first
  page only; \<open>user_query\<close> is what \<^verbatim>\<open>st.text_input\<close> returns, read on the chatbot page
  only. The result is the answer written to the page, if any.
\<close>

definition app ::
  "'v env \<Rightarrow> bool \<Rightarrow> string \<Rightarrow> session_state \<Rightarrow> 'v world
     \<Rightarrow> (error + string option) \<times> session_state \<times> 'v world" where
  "app env clicked user_query s w =
     (case (case embeddings s of
              None \<Rightarrow> new_embeddings env ''sentence-transformers/all-mpnet-base-v2'' w
            | Some emb \<Rightarrow> (Inr emb, w)) of
        (Inl e, w0) \<Rightarrow> (Inl e, s, w0)
      | (Inr emb, w0) \<Rightarrow>
          (let s0 = s\<lparr>embeddings := Some emb\<rparr> in
           case (if page s0 = first_page \<and> clicked then start_button env s0 w0
                 else (Inr (), s0, w0)) of
             (Inl e, s1, w1) \<Rightarrow> (Inl e, s1, w1)
           | (Inr u, s1, w1) \<Rightarrow>
               if page s1 = chatbot \<and> user_query \<noteq> [] then
                 (case get_result env user_query emb (pinecone_index s1) w1 of
                    (Inl e, w2) \<Rightarrow> (Inl e, s1, w2)
                  | (Inr final_answer, w2) \<Rightarrow> (Inr (Some final_answer), s1, w2))
               else (Inr None, s1, w1)))"

text \<open>A session: the script run once for each interaction, whatever each run ends with.\<close>

fun session ::
  "'v env \<Rightarrow> (bool \<times> string) list \<Rightarrow> session_state \<Rightarrow> 'v world \<Rightarrow> session_state \<times> 'v world" where
  "session env [] s w = (s, w)"
| "session env ((clicked, user_query) # rest) s w =
     (case app env clicked user_query s w of (r, s', w') \<Rightarrow> session env rest s' w')"

section \<open>The text splitter\<close>

text \<open>
  Modelled from the spec: the text splitter. The program hands chunking to the library class
  \<^verbatim>\<open>RecursiveCharacterTextSplitter\<close>, whose code is not part of the repository. Section
  4.2 words it as a sliding window of \<open>chunk_size\<close> characters with \<open>chunk_overlap\<close>
  characters shared between consecutive windows, working page by page and keeping the
  order. A window that cannot advance (\<open>chunk_size \<le> chunk_overlap\<close>) is refused.
\<close>

function sliding_windows :: "nat \<Rightarrow> nat \<Rightarrow> string \<Rightarrow> string list" where
  "sliding_windows chunk_size chunk_overlap txt =
     (if chunk_size \<le> chunk_overlap \<or> length txt \<le> chunk_size then [txt]
      else take chunk_size txt
           # sliding_windows chunk_size chunk_overlap (drop (chunk_size - chunk_overlap) txt))"
  by pat_completeness auto
termination
  by (relation "measure (\<lambda>(chunk_size, chunk_overlap, txt). length txt)") auto

declare sliding_windows.simps [simp del]

text \<open>
  Modelled from the spec: the splitter applied to the pages of a document, each chunk
  keeping the page number of the page it was cut from.
\<close>

definition sliding_split :: "nat \<Rightarrow> nat \<Rightarrow> document list \<Rightarrow> error + document list" where
  "sliding_split chunk_size chunk_overlap docs =
     (if chunk_size \<le> chunk_overlap then Inl ChunkingError
      else Inr (concat (map (\<lambda>doc. map (\<lambda>txt. doc\<lparr>page_content := txt\<rparr>)
                               (sliding_windows chunk_size chunk_overlap (page_content doc)))
                  docs)))"

section \<open>Vocabulary of the properties\<close>

text \<open>The \<open>{text, page}\<close> pair of a metadata dictionary, with the defaults for missing keys.\<close>

definition section_of :: "metadata \<Rightarrow> relevant_section" where
  "section_of md =
     \<lparr>Text = (case md_text md of None \<Rightarrow> [] | Some t \<Rightarrow> t),
      Page = (case md_chunk_id md of None \<Rightarrow> - 1 | Some c \<Rightarrow> c)\<rparr>"

fun is_chat_completion :: "'v event \<Rightarrow> bool" where
  "is_chat_completion (ChatCompletion model messages) = True"
| "is_chat_completion ev = False"

text \<open>\<open>no_fault env t evs\<close>: made one after the other after the calls \<open>t\<close>, no call of \<open>evs\<close> fails.\<close>

fun no_fault :: "'v env \<Rightarrow> 'v event list \<Rightarrow> 'v event list \<Rightarrow> bool" where
  "no_fault env t [] = True"
| "no_fault env t (ev # evs) = (fault env t ev = None \<and> no_fault env (t @ [ev]) evs)"

text \<open>
  The two calls ingestion owes to the chunk of sequence index \<open>i\<close>: its embedding, then
  one upsert of the single entry \<open>chunk-i\<close> with metadata \<open>{chunk_id: i, text: chunk text}\<close>.
\<close>

definition embed_event :: "hf_embeddings \<Rightarrow> document \<Rightarrow> 'v event" where
  "embed_event emb c = EmbedQuery emb (page_content c)"

definition upsert_event :: "'v env \<Rightarrow> hf_embeddings \<Rightarrow> string \<Rightarrow> nat \<Rightarrow> document \<Rightarrow> 'v event" where
  "upsert_event env emb idx i c =
     Upsert idx [(''chunk-'' @ str_nat i,
                  embedding_of env (model_name emb) (page_content c),
                  \<lparr>md_chunk_id = Some (int i), md_text = Some (page_content c)\<rparr>)]"

definition chunk_events ::
  "'v env \<Rightarrow> hf_embeddings \<Rightarrow> string \<Rightarrow> nat \<times> document \<Rightarrow> 'v event list" where
  "chunk_events env emb idx ic =
     [embed_event emb (snd ic), upsert_event env emb idx (fst ic) (snd ic)]"

text \<open>The calls of a whole upload, chunk by chunk in sequence order, counting from \<open>i\<close>.\<close>

definition upload_events ::
  "'v env \<Rightarrow> hf_embeddings \<Rightarrow> string \<Rightarrow> nat \<Rightarrow> document list \<Rightarrow> 'v event list" where
  "upload_events env emb idx i chunks =
     concat (map (chunk_events env emb idx) (zip [i ..< i + length chunks] chunks))"

text \<open>The context block and the prompt, as the specification words them.\<close>

fun context_of :: "relevant_section list \<Rightarrow> string" where
  "context_of [] = []"
| "context_of [s] = ''Page '' @ str_int (Page s) @ '':\<newline>'' @ Text s"
| "context_of (s # s' # rest) =
     ''Page '' @ str_int (Page s) @ '':\<newline>'' @ Text s @ ''\<newline>\<newline>'' @ context_of (s' # rest)"

definition prompt_of :: "string \<Rightarrow> string \<Rightarrow> string" where
  "prompt_of context user_query =
     ''\<newline>        You are a knowledgeable assistant specializing in Titanic Data Analysis.\<newline>''
     @ ''        Use the following context information to address the user'' @ [CHR 0x27] @ ''s query.\<newline>''
     @ ''\<newline>''
     @ ''        Context:\<newline>''
     @ ''        '' @ context @ ''\<newline>''
     @ ''\<newline>''
     @ ''        User Query:\<newline>''
     @ ''        '' @ user_query @ ''\<newline>''
     @ ''\<newline>''
     @ ''        Generate a clear, precise, and actionable response.\<newline>''
     @ ''    ''"

definition mpnet :: string where
  "mpnet = ''sentence-transformers/all-mpnet-base-v2''"



fun is_load :: "'v event \<Rightarrow> bool" where
  "is_load (LoadDocument file) = True"
| "is_load ev = False"

definition ingestion_passes :: "'v event list \<Rightarrow> nat" where
  "ingestion_passes t = length (filter is_load t)"

fun is_upsert :: "'v event \<Rightarrow> bool" where
  "is_upsert (Upsert index vectors) = True"
| "is_upsert ev = False"

text \<open>
  Which embedding object a call uses, and whether an event names the one embedding model
  and the one index dimension of the program.
\<close>

fun is_new_embeddings :: "'v event \<Rightarrow> bool" where
  "is_new_embeddings (NewEmbeddings name) = True"
| "is_new_embeddings ev = False"

fun embed_handles :: "'v event list \<Rightarrow> nat list" where
  "embed_handles [] = []"
| "embed_handles (EmbedQuery emb txt # t) = handle_id emb # embed_handles t"
| "embed_handles (ev # t) = embed_handles t"

fun same_model_and_dimension :: "'v event \<Rightarrow> bool" where
  "same_model_and_dimension (NewEmbeddings name) = (name = mpnet)"
| "same_model_and_dimension (EmbedQuery emb txt) = (model_name emb = mpnet)"
| "same_model_and_dimension (CreateIndex name dimension metric cloud region) = (dimension = 768)"
| "same_model_and_dimension ev = True"

definition handle_ok :: "hf_embeddings option \<Rightarrow> bool" where
  "handle_ok h = (case h of None \<Rightarrow> True | Some emb \<Rightarrow> model_name emb = mpnet)"

text \<open>The lengths of the chunks, and the ids ingestion gives them.\<close>

definition chunk_lengths :: "error + document list \<Rightarrow> nat list" where
  "chunk_lengths r = (case r of Inl e \<Rightarrow> [] | Inr chunks \<Rightarrow> map (length \<circ> page_content) chunks)"

definition chunk_ids :: "error + document list \<Rightarrow> string list" where
  "chunk_ids r =
     (case r of Inl e \<Rightarrow> [] | Inr chunks \<Rightarrow> map (\<lambda>i. ''chunk-'' @ str_nat i) [0 ..< length chunks])"

section \<open>A concrete environment\<close>

text \<open>What the demonstration index answers once something has been upserted.\<close>

definition demo_matches :: "match list" where
  "demo_matches =
     [\<lparr>match_id = ''chunk-1'',
       match_metadata = Some \<lparr>md_chunk_id = Some 1, md_text = Some ''Survival rate was 38%.''\<rparr>\<rparr>,
      \<lparr>match_id = ''chunk-0'',
       match_metadata = Some \<lparr>md_chunk_id = Some 0, md_text = Some ''The Titanic sank in 1912.''\<rparr>\<rparr>,
      \<lparr>match_id = ''stray'',
       match_metadata = Some \<lparr>md_chunk_id = None, md_text = None\<rparr>\<rparr>]"

definition demo_env :: "nat env" where
  "demo_env = \<lparr>
     fault = (\<lambda>t ev. None),
     documents = (\<lambda>file. [\<lparr>page_content = ''The Titanic sank in 1912.'', source_page = 0\<rparr>,
                           \<lparr>page_content = ''Survival rate was 38%.'', source_page = 1\<rparr>]),
     split_documents = (\<lambda>chunk_size chunk_overlap docs. Inr docs),
     embedding_of = (\<lambda>model txt. length txt),
     query_response = (\<lambda>t index vector top_k include_metadata.
                         if filter is_upsert t = [] then [] else demo_matches),
     completion = (\<lambda>t model messages. [''About 38% survived.''])\<rparr>"

definition empty_world :: "nat world" where
  "empty_world = \<lparr>index_names = [], next_handle = 0, trace = []\<rparr>"

definition indexed_world :: "nat world" where
  "indexed_world =
     \<lparr>index_names = [''titanic''], next_handle = 1,
      trace = [Upsert ''titanic''
                 [(''chunk-0'', 25,
                   \<lparr>md_chunk_id = Some 0, md_text = Some ''The Titanic sank in 1912.''\<rparr>)]]\<rparr>"

text \<open>
  An environment with failures: the embedding of the text \<open>unreadable\<close> fails, and so
  does the upsert of the entry \<open>chunk-1\<close>.
\<close>

definition flaky_env :: "nat env" where
  "flaky_env = demo_env\<lparr>fault :=
     (\<lambda>t ev. case ev of
        EmbedQuery emb txt \<Rightarrow> (if txt = ''unreadable'' then Some EmbeddingError else None)
      | Upsert index vectors \<Rightarrow>
          (if map fst vectors = [''chunk-1''] then Some UpsertError else None)
      | _ \<Rightarrow> None)\<rparr>"

text \<open>The demonstration session after its first rendering, and after its start action.\<close>

definition landing_session :: session_state where
  "landing_session = new_session\<lparr>embeddings := Some \<lparr>handle_id = 0, model_name = mpnet\<rparr>\<rparr>"

definition landing_world :: "nat world" where
  "landing_world = \<lparr>index_names = [], next_handle = 1, trace = [NewEmbeddings mpnet]\<rparr>"

definition chatbot_session :: session_state where
  "chatbot_session =
     \<lparr>page = chatbot, index_initialized = True, pinecone_index = Some ''titanic'',
      embeddings = Some \<lparr>handle_id = 0, model_name = mpnet\<rparr>\<rparr>"

definition chatbot_world :: "nat world" where
  "chatbot_world =
     \<lparr>index_names = [''titanic''], next_handle = 2,
      trace =
        [NewEmbeddings mpnet,
         ListIndexes,
         CreateIndex ''titanic'' 768 ''euclidean'' ''aws'' ''us-east-1'',
         LoadDocument ''Knowledge_base/titanic_final_eda.pdf'',
         NewEmbeddings mpnet,
         EmbedQuery \<lparr>handle_id = 1, model_name = mpnet\<rparr> ''The Titanic sank in 1912.'',
         Upsert ''titanic''
           [(''chunk-0'', 25,
             \<lparr>md_chunk_id = Some 0, md_text = Some ''The Titanic sank in 1912.''\<rparr>)],
         EmbedQuery \<lparr>handle_id = 1, model_name = mpnet\<rparr> ''Survival rate was 38%.'',
         Upsert ''titanic''
           [(''chunk-1'', 22,
             \<lparr>md_chunk_id = Some 1, md_text = Some ''Survival rate was 38%.''\<rparr>)]]\<rparr>"


text \<open>The demonstration environment with the sliding-window splitter.\<close>

definition sliding_env :: "nat env" where
  "sliding_env = demo_env\<lparr>split_documents := sliding_split\<rparr>"

section \<open>Properties\<close>

subsection \<open>The upload loop\<close>

lemma upload_events_Nil: "upload_events env emb idx i [] = []"
  by (simp add: upload_events_def)

lemma upload_events_Cons:
  "upload_events env emb idx i (c # cs) =
     chunk_events env emb idx (i, c) @ upload_events env emb idx (Suc i) cs"
proof -
  have "[i ..< i + length (c # cs)] = i # [Suc i ..< Suc i + length cs]"
    by (simp add: upt_conv_Cons del: upt_Suc)
  then show ?thesis
    by (simp add: upload_events_def del: upt_Suc)
qed

lemma upload_events_append:
  "upload_events env emb idx i (pre @ post) =
     upload_events env emb idx i pre @ upload_events env emb idx (i + length pre) post"
  by (induction pre arbitrary: i) (simp_all add: upload_events_Nil upload_events_Cons)

lemma no_fault_append:
  "no_fault env t (xs @ ys) = (no_fault env t xs \<and> no_fault env (t @ xs) ys)"
  by (induction xs arbitrary: t) auto

lemma upload_loop_success:
  "upload_loop env emb (Some idx) i chunks w = (Inr (), w') \<longleftrightarrow>
     no_fault env (trace w) (upload_events env emb idx i chunks)
     \<and> w' = w\<lparr>trace := trace w @ upload_events env emb idx i chunks\<rparr>"
proof (induction chunks arbitrary: i w)
  case Nil
  show ?case by (auto simp: upload_events_Nil)
next
  case (Cons c cs)
  show ?case
    by (auto simp: upload_events_Cons chunk_events_def embed_event_def upsert_event_def Let_def
        embed_query_def upsert_def call_def log_def Cons.IH split: option.splits)
qed

lemma upload_loop_append:
  "upload_loop env emb index i (pre @ post) w =
     (case upload_loop env emb index i pre w of
        (Inl e, w1) \<Rightarrow> (Inl e, w1)
      | (Inr u, w1) \<Rightarrow> upload_loop env emb index (i + length pre) post w1)"
  by (induction pre arbitrary: i w) (auto simp: Let_def split: prod.splits sum.splits)

subsection \<open>The retriever\<close>

lemma sections_loop_Some:
  "map match_metadata ms = map Some mds \<Longrightarrow>
   sections_loop results ms = Inr (results @ map section_of mds)"
proof (induction ms arbitrary: results mds)
  case Nil
  then show ?case by simp
next
  case (Cons m ms)
  then obtain md mds' where mds: "mds = md # mds'" by (cases mds) auto
  with Cons.prems have m: "match_metadata m = Some md"
    and rest: "map match_metadata ms = map Some mds'"
    by simp_all
  show ?case
    using Cons.IH [OF rest] by (simp add: m mds section_of_def)
qed

lemma retrieve_ok:
  assumes "fault env (trace w) (EmbedQuery emb q) = None"
      and "fault env (trace w @ [EmbedQuery emb q])
             (Query idx (embedding_of env (model_name emb) q) 5 True) = None"
      and "map match_metadata
             (query_response env (trace w @ [EmbedQuery emb q]) idx
                (embedding_of env (model_name emb) q) 5 True) = map Some mds"
  shows "retrieve_related_sections env q emb (Some idx) w =
           (Inr (map section_of mds),
            w\<lparr>trace := trace w @ [EmbedQuery emb q,
                 Query idx (embedding_of env (model_name emb) q) 5 True]\<rparr>)"
  using assms
  by (simp add: retrieve_related_sections_def seq_def embed_query_def query_index_def call_def
      log_def sections_loop_Some)

lemma retrieve_no_chat:
  "retrieve_related_sections env q emb index w = (r, w1) \<Longrightarrow>
   filter is_chat_completion (trace w1) = filter is_chat_completion (trace w)"
  by (auto simp: retrieve_related_sections_def seq_def embed_query_def query_index_def call_def
      log_def raise_def split: option.splits)

subsection \<open>The index provisioner\<close>

lemma initialize_pinecone_result:
  assumes "initialize_pinecone env w = (Inr h, w1)"
  shows "h = ''titanic'' \<and> ''titanic'' \<in> set (index_names w1)"
  using assms
  by (auto simp: initialize_pinecone_def Let_def seq_def list_indexes_def create_index_def call_def
      ret_def log_def split: option.splits if_splits)

text \<open>
  C5. Calling \<open>initialize_pinecone\<close> a second time, after a call that returned, makes one
  call only, the listing of the indexes, so no index is created a second time; and when
  that listing answers, the second call returns the handle of the first.
\<close>

theorem initialize_pinecone_idempotent:
  assumes "initialize_pinecone env w = (Inr h, w1)"
  shows "snd (initialize_pinecone env w1) = log ListIndexes w1
       \<and> (fault env (trace w1) ListIndexes = None
            \<longrightarrow> initialize_pinecone env w1 = (Inr h, log ListIndexes w1))"
proof -
  from initialize_pinecone_result [OF assms]
  have h: "h = ''titanic''" and mem: "''titanic'' \<in> set (index_names w1)"
    by simp_all
  show ?thesis
    using mem
    by (simp add: h initialize_pinecone_def Let_def seq_def list_indexes_def call_def ret_def log_def
        split: option.splits)
qed

theorem initialize_pinecone_idempotent_witness:
  "initialize_pinecone demo_env empty_world =
     (Inr ''titanic'',
      \<lparr>index_names = [''titanic''], next_handle = 0,
       trace = [ListIndexes, CreateIndex ''titanic'' 768 ''euclidean'' ''aws'' ''us-east-1'']\<rparr>)
   \<and> initialize_pinecone demo_env
       \<lparr>index_names = [''titanic''], next_handle = 0,
        trace = [ListIndexes, CreateIndex ''titanic'' 768 ''euclidean'' ''aws'' ''us-east-1'']\<rparr> =
     (Inr ''titanic'',
      \<lparr>index_names = [''titanic''], next_handle = 0,
       trace = [ListIndexes, CreateIndex ''titanic'' 768 ''euclidean'' ''aws'' ''us-east-1'',
                ListIndexes]\<rparr>)"
proof -
  have first: "initialize_pinecone demo_env empty_world =
     (Inr ''titanic'',
      \<lparr>index_names = [''titanic''], next_handle = 0,
       trace = [ListIndexes, CreateIndex ''titanic'' 768 ''euclidean'' ''aws'' ''us-east-1'']\<rparr>)"
    by (simp add: initialize_pinecone_def Let_def seq_def list_indexes_def create_index_def call_def
        ret_def log_def demo_env_def empty_world_def)
  from initialize_pinecone_idempotent [OF first] show ?thesis
    using first by (simp add: demo_env_def log_def)
qed

subsection \<open>The ingestion pipeline\<close>

lemma upload_events_length: "length (upload_events env emb idx i chunks) = 2 * length chunks"
  by (induction chunks arbitrary: i) (simp_all add: upload_events_Nil upload_events_Cons chunk_events_def)

lemma upload_events_nth:
  "k < length chunks \<Longrightarrow>
     upload_events env emb idx i chunks ! (2 * k) = embed_event emb (chunks ! k)
   \<and> upload_events env emb idx i chunks ! (2 * k + 1) = upsert_event env emb idx (i + k) (chunks ! k)"
proof (induction chunks arbitrary: i k)
  case Nil
  then show ?case by simp
next
  case (Cons c cs)
  show ?case
  proof (cases k)
    case 0
    then show ?thesis by (simp add: upload_events_Cons chunk_events_def)
  next
    case (Suc j)
    with Cons.prems have j: "j < length cs" by simp
    from Cons.IH [OF j, of "Suc i"] show ?thesis
      by (simp add: Suc upload_events_Cons chunk_events_def)
  qed
qed

lemma generate_and_upload_success:
  assumes "emb = \<lparr>handle_id = next_handle w, model_name = mpnet\<rparr>"
  shows "generate_and_upload_embeddings env chunks (Some idx) w = (Inr (), w') \<longleftrightarrow>
           fault env (trace w) (NewEmbeddings mpnet) = None
         \<and> no_fault env (trace w @ [NewEmbeddings mpnet]) (upload_events env emb idx 0 chunks)
         \<and> w' = w\<lparr>next_handle := Suc (next_handle w),
                  trace := trace w @ NewEmbeddings mpnet # upload_events env emb idx 0 chunks\<rparr>"
  by (auto simp: generate_and_upload_embeddings_def seq_def new_embeddings_def call_def log_def
      assms mpnet_def [symmetric] upload_loop_success split: option.splits)

text \<open>
  C3. When no call fails, \<open>generate_and_upload_embeddings\<close> constructs its embedding
  object and then, for the chunks in sequence order, makes exactly two calls per chunk:
  the embedding of the text of chunk \<open>i\<close>, and one upsert of the single entry with id
  \<open>chunk-i\<close>, that embedding, and metadata \<open>{chunk_id: i, text: chunk text}\<close>.
  Nothing is batched: every upsert carries one entry.
\<close>

theorem generate_and_upload_embeddings_in_order:
  assumes "emb = \<lparr>handle_id = next_handle w, model_name = mpnet\<rparr>"
      and "fault env (trace w) (NewEmbeddings mpnet) = None"
      and "no_fault env (trace w @ [NewEmbeddings mpnet]) (upload_events env emb idx 0 chunks)"
  shows "generate_and_upload_embeddings env chunks (Some idx) w =
           (Inr (), w\<lparr>next_handle := Suc (next_handle w),
                      trace := trace w @ NewEmbeddings mpnet # upload_events env emb idx 0 chunks\<rparr>)
       \<and> length (upload_events env emb idx 0 chunks) = 2 * length chunks
       \<and> (\<forall>i < length chunks.
             upload_events env emb idx 0 chunks ! (2 * i) = EmbedQuery emb (page_content (chunks ! i))
           \<and> upload_events env emb idx 0 chunks ! (2 * i + 1) =
               Upsert idx [(''chunk-'' @ str_nat i,
                            embedding_of env (model_name emb) (page_content (chunks ! i)),
                            \<lparr>md_chunk_id = Some (int i),
                             md_text = Some (page_content (chunks ! i))\<rparr>)])"
proof -
  have "generate_and_upload_embeddings env chunks (Some idx) w =
           (Inr (), w\<lparr>next_handle := Suc (next_handle w),
                      trace := trace w @ NewEmbeddings mpnet # upload_events env emb idx 0 chunks\<rparr>)"
    using assms generate_and_upload_success [of emb w env chunks idx] by simp
  moreover have "\<forall>i < length chunks.
             upload_events env emb idx 0 chunks ! (2 * i) = EmbedQuery emb (page_content (chunks ! i))
           \<and> upload_events env emb idx 0 chunks ! (2 * i + 1) =
               Upsert idx [(''chunk-'' @ str_nat i,
                            embedding_of env (model_name emb) (page_content (chunks ! i)),
                            \<lparr>md_chunk_id = Some (int i),
                             md_text = Some (page_content (chunks ! i))\<rparr>)]"
    using upload_events_nth [of _ chunks env emb idx 0]
    by (simp add: embed_event_def upsert_event_def)
  ultimately show ?thesis
    by (simp add: upload_events_length)
qed

theorem generate_and_upload_embeddings_in_order_witness:
  "generate_and_upload_embeddings demo_env
     [\<lparr>page_content = ''The Titanic sank in 1912.'', source_page = 0\<rparr>,
      \<lparr>page_content = ''Survival rate was 38%.'', source_page = 1\<rparr>] (Some ''titanic'') empty_world =
   (Inr (),
    \<lparr>index_names = [], next_handle = 1,
     trace =
       [NewEmbeddings ''sentence-transformers/all-mpnet-base-v2'',
        EmbedQuery \<lparr>handle_id = 0, model_name = ''sentence-transformers/all-mpnet-base-v2''\<rparr>
          ''The Titanic sank in 1912.'',
        Upsert ''titanic''
          [(''chunk-0'', 25,
            \<lparr>md_chunk_id = Some 0, md_text = Some ''The Titanic sank in 1912.''\<rparr>)],
        EmbedQuery \<lparr>handle_id = 0, model_name = ''sentence-transformers/all-mpnet-base-v2''\<rparr>
          ''Survival rate was 38%.'',
        Upsert ''titanic''
          [(''chunk-1'', 22,
            \<lparr>md_chunk_id = Some 1, md_text = Some ''Survival rate was 38%.''\<rparr>)]]\<rparr>)"
proof -
  have ev: "upload_events demo_env \<lparr>handle_id = 0, model_name = mpnet\<rparr> ''titanic'' 0
     [\<lparr>page_content = ''The Titanic sank in 1912.'', source_page = 0\<rparr>,
      \<lparr>page_content = ''Survival rate was 38%.'', source_page = 1\<rparr>] =
       [EmbedQuery \<lparr>handle_id = 0, model_name = ''sentence-transformers/all-mpnet-base-v2''\<rparr>
          ''The Titanic sank in 1912.'',
        Upsert ''titanic''
          [(''chunk-0'', 25,
            \<lparr>md_chunk_id = Some 0, md_text = Some ''The Titanic sank in 1912.''\<rparr>)],
        EmbedQuery \<lparr>handle_id = 0, model_name = ''sentence-transformers/all-mpnet-base-v2''\<rparr>
          ''Survival rate was 38%.'',
        Upsert ''titanic''
          [(''chunk-1'', 22,
            \<lparr>md_chunk_id = Some 1, md_text = Some ''Survival rate was 38%.''\<rparr>)]]"
    by (simp add: upload_events_Cons upload_events_Nil chunk_events_def embed_event_def
        upsert_event_def demo_env_def mpnet_def str_nat.simps digit_def)
  have nf: "no_fault demo_env t evs" for t evs
    by (induction evs arbitrary: t) (simp_all add: demo_env_def)
  have emb: "\<lparr>handle_id = 0, model_name = mpnet\<rparr> =
             \<lparr>handle_id = next_handle empty_world, model_name = mpnet\<rparr>"
    by (simp add: empty_world_def)
  have f0: "fault demo_env (trace empty_world) (NewEmbeddings mpnet) = None"
    by (simp add: demo_env_def)
  note inst = generate_and_upload_embeddings_in_order
    [where emb = "\<lparr>handle_id = 0, model_name = mpnet\<rparr>" and w = empty_world
       and env = demo_env and idx = "''titanic''" and chunks =
        "[\<lparr>page_content = ''The Titanic sank in 1912.'', source_page = 0\<rparr>,
          \<lparr>page_content = ''Survival rate was 38%.'', source_page = 1\<rparr>]"]
  show ?thesis
    using inst [OF emb f0 nf, THEN conjunct1]
    unfolding ev by (simp add: empty_world_def mpnet_def)
qed

lemma upload_loop_step_fail:
  assumes "upload_loop env emb (Some idx) 0 pre w0 = (Inr (), w1)"
  shows "upload_loop env emb (Some idx) 0 (pre @ c # post) w0 =
     (case fault env (trace w1) (embed_event emb c) of
        Some e \<Rightarrow> (Inl e, log (embed_event emb c) w1)
      | None \<Rightarrow>
          (case fault env (trace w1 @ [embed_event emb c]) (upsert_event env emb idx (length pre) c) of
             Some e \<Rightarrow> (Inl e, log (upsert_event env emb idx (length pre) c) (log (embed_event emb c) w1))
           | None \<Rightarrow> upload_loop env emb (Some idx) (Suc (length pre)) post
                       (log (upsert_event env emb idx (length pre) c) (log (embed_event emb c) w1))))"
  by (simp add: upload_loop_append assms Let_def embed_query_def upsert_def call_def log_def
      embed_event_def upsert_event_def split: option.splits)

text \<open>
  C7. Let the chunks before \<open>c\<close> have been embedded and upserted without failure. If the
  embedding of \<open>c\<close> fails, or its upsert does, \<open>generate_and_upload_embeddings\<close> ends
  with that very error. The failing call is the last call made: it is made once, and
  no call is made for any later chunk. Conversely the function returns normally only
  when neither call for \<open>c\<close> failed, so no failing chunk is passed over.
\<close>

theorem ingestion_failure_aborts:
  assumes emb: "emb = \<lparr>handle_id = next_handle w, model_name = mpnet\<rparr>"
      and new: "fault env (trace w) (NewEmbeddings mpnet) = None"
      and pre: "no_fault env (trace w @ [NewEmbeddings mpnet]) (upload_events env emb idx 0 pre)"
      and t: "t = trace w @ NewEmbeddings mpnet # upload_events env emb idx 0 pre"
  shows "(fault env t (embed_event emb c) = Some e \<longrightarrow>
            generate_and_upload_embeddings env (pre @ c # post) (Some idx) w =
              (Inl e, w\<lparr>next_handle := Suc (next_handle w),
                        trace := t @ [embed_event emb c]\<rparr>))
       \<and> (fault env t (embed_event emb c) = None \<and>
          fault env (t @ [embed_event emb c]) (upsert_event env emb idx (length pre) c) = Some e \<longrightarrow>
            generate_and_upload_embeddings env (pre @ c # post) (Some idx) w =
              (Inl e, w\<lparr>next_handle := Suc (next_handle w),
                        trace := t @ [embed_event emb c, upsert_event env emb idx (length pre) c]\<rparr>))
       \<and> (fst (generate_and_upload_embeddings env (pre @ c # post) (Some idx) w) = Inr () \<longrightarrow>
            fault env t (embed_event emb c) = None \<and>
            fault env (t @ [embed_event emb c]) (upsert_event env emb idx (length pre) c) = None)"
proof -
  let ?w0 = "w\<lparr>trace := trace w @ [NewEmbeddings mpnet], next_handle := Suc (next_handle w)\<rparr>"
  let ?w1 = "w\<lparr>trace := t, next_handle := Suc (next_handle w)\<rparr>"
  have start: "generate_and_upload_embeddings env chunks (Some idx) w =
                 upload_loop env emb (Some idx) 0 chunks ?w0" for chunks
    using new
    by (simp add: generate_and_upload_embeddings_def seq_def new_embeddings_def call_def log_def
        emb mpnet_def [symmetric])
  have "upload_loop env emb (Some idx) 0 pre ?w0 = (Inr (), ?w1)"
    using pre by (simp add: upload_loop_success t)
  note step = upload_loop_step_fail [OF this, of c post]
  show ?thesis
    unfolding start step
    by (auto simp: log_def split: option.splits)
qed

theorem ingestion_failure_aborts_witness:
  "generate_and_upload_embeddings flaky_env
     [\<lparr>page_content = ''The Titanic sank in 1912.'', source_page = 0\<rparr>,
      \<lparr>page_content = ''Survival rate was 38%.'', source_page = 1\<rparr>,
      \<lparr>page_content = ''Three classes of passengers.'', source_page = 2\<rparr>]
     (Some ''titanic'') empty_world =
   (Inl UpsertError,
    \<lparr>index_names = [], next_handle = 1,
     trace =
       [NewEmbeddings ''sentence-transformers/all-mpnet-base-v2'',
        EmbedQuery \<lparr>handle_id = 0, model_name = ''sentence-transformers/all-mpnet-base-v2''\<rparr>
          ''The Titanic sank in 1912.'',
        Upsert ''titanic''
          [(''chunk-0'', 25,
            \<lparr>md_chunk_id = Some 0, md_text = Some ''The Titanic sank in 1912.''\<rparr>)],
        EmbedQuery \<lparr>handle_id = 0, model_name = ''sentence-transformers/all-mpnet-base-v2''\<rparr>
          ''Survival rate was 38%.'',
        Upsert ''titanic''
          [(''chunk-1'', 22,
            \<lparr>md_chunk_id = Some 1, md_text = Some ''Survival rate was 38%.''\<rparr>)]]\<rparr>)
   \<and> generate_and_upload_embeddings flaky_env
     [\<lparr>page_content = ''The Titanic sank in 1912.'', source_page = 0\<rparr>,
      \<lparr>page_content = ''unreadable'', source_page = 1\<rparr>,
      \<lparr>page_content = ''Three classes of passengers.'', source_page = 2\<rparr>]
     (Some ''titanic'') empty_world =
   (Inl EmbeddingError,
    \<lparr>index_names = [], next_handle = 1,
     trace =
       [NewEmbeddings ''sentence-transformers/all-mpnet-base-v2'',
        EmbedQuery \<lparr>handle_id = 0, model_name = ''sentence-transformers/all-mpnet-base-v2''\<rparr>
          ''The Titanic sank in 1912.'',
        Upsert ''titanic''
          [(''chunk-0'', 25,
            \<lparr>md_chunk_id = Some 0, md_text = Some ''The Titanic sank in 1912.''\<rparr>)],
        EmbedQuery \<lparr>handle_id = 0, model_name = ''sentence-transformers/all-mpnet-base-v2''\<rparr>
          ''unreadable'']\<rparr>)"
proof -
  let ?emb = "\<lparr>handle_id = 0, model_name = mpnet\<rparr>"
  let ?d0 = "\<lparr>page_content = ''The Titanic sank in 1912.'', source_page = 0\<rparr>"
  let ?d1 = "\<lparr>page_content = ''Survival rate was 38%.'', source_page = 1\<rparr>"
  let ?bad = "\<lparr>page_content = ''unreadable'', source_page = 1\<rparr>"
  let ?d2 = "\<lparr>page_content = ''Three classes of passengers.'', source_page = 2\<rparr>"
  let ?t = "[NewEmbeddings mpnet, embed_event ?emb ?d0, upsert_event flaky_env ?emb ''titanic'' 0 ?d0]"
  have ev: "upload_events flaky_env ?emb ''titanic'' 0 [?d0] =
              [embed_event ?emb ?d0, upsert_event flaky_env ?emb ''titanic'' 0 ?d0]"
    by (simp add: upload_events_Cons upload_events_Nil chunk_events_def)
  have emb: "?emb = \<lparr>handle_id = next_handle empty_world, model_name = mpnet\<rparr>"
    by (simp add: empty_world_def)
  have new: "fault flaky_env (trace empty_world) (NewEmbeddings mpnet) = None"
    by (simp add: flaky_env_def demo_env_def)
  have pre: "no_fault flaky_env (trace empty_world @ [NewEmbeddings mpnet])
               (upload_events flaky_env ?emb ''titanic'' 0 [?d0])"
    unfolding ev
    by (simp add: flaky_env_def demo_env_def embed_event_def upsert_event_def str_nat.simps digit_def)
  have t: "?t = trace empty_world @ NewEmbeddings mpnet # upload_events flaky_env ?emb ''titanic'' 0 [?d0]"
    unfolding ev by (simp add: empty_world_def)
  note inst = ingestion_failure_aborts [OF emb new pre t]
  have up: "fault flaky_env ?t (embed_event ?emb ?d1) = None \<and>
            fault flaky_env (?t @ [embed_event ?emb ?d1])
              (upsert_event flaky_env ?emb ''titanic'' (length [?d0]) ?d1) = Some UpsertError"
    by (simp add: flaky_env_def demo_env_def embed_event_def upsert_event_def str_nat.simps digit_def)
  have em: "fault flaky_env ?t (embed_event ?emb ?bad) = Some EmbeddingError"
    by (simp add: flaky_env_def demo_env_def embed_event_def)
  have first: "generate_and_upload_embeddings flaky_env ([?d0] @ ?d1 # [?d2]) (Some ''titanic'') empty_world =
      (Inl UpsertError, empty_world\<lparr>next_handle := Suc (next_handle empty_world),
         trace := ?t @ [embed_event ?emb ?d1, upsert_event flaky_env ?emb ''titanic'' (length [?d0]) ?d1]\<rparr>)"
    using inst [THEN conjunct2, THEN conjunct1, THEN mp, OF up] .
  have second: "generate_and_upload_embeddings flaky_env ([?d0] @ ?bad # [?d2]) (Some ''titanic'') empty_world =
      (Inl EmbeddingError, empty_world\<lparr>next_handle := Suc (next_handle empty_world),
         trace := ?t @ [embed_event ?emb ?bad]\<rparr>)"
    using inst [THEN conjunct1, THEN mp, OF em] .
  show ?thesis
    using first second
    by (simp add: empty_world_def mpnet_def embed_event_def upsert_event_def flaky_env_def
        demo_env_def str_nat.simps digit_def)
qed

subsection \<open>Answering a query\<close>

text \<open>
  C2. When the retriever returns the empty list, \<open>get_result\<close> returns exactly the
  string \<open>No relevant sections found.\<close> and leaves the world as the retriever left it:
  the trace holds no chat-completion call that it did not hold before the query.
\<close>

theorem get_result_no_sections:
  assumes "retrieve_related_sections env user_query emb index w = (Inr [], w1)"
  shows "get_result env user_query emb index w = (Inr ''No relevant sections found.'', w1)
       \<and> filter is_chat_completion (trace w1) = filter is_chat_completion (trace w)"
  using assms retrieve_no_chat [OF assms]
  by (simp add: get_result_def seq_def ret_def)

theorem get_result_no_sections_witness:
  "get_result demo_env ''What is the survival rate?''
     \<lparr>handle_id = 0, model_name = ''sentence-transformers/all-mpnet-base-v2''\<rparr>
     (Some ''titanic'') empty_world =
   (Inr ''No relevant sections found.'',
    \<lparr>index_names = [], next_handle = 0,
     trace = [EmbedQuery \<lparr>handle_id = 0, model_name = ''sentence-transformers/all-mpnet-base-v2''\<rparr>
                ''What is the survival rate?'',
              Query ''titanic'' 26 5 True]\<rparr>)"
proof -
  have "retrieve_related_sections demo_env ''What is the survival rate?''
     \<lparr>handle_id = 0, model_name = ''sentence-transformers/all-mpnet-base-v2''\<rparr>
     (Some ''titanic'') empty_world =
   (Inr [],
    \<lparr>index_names = [], next_handle = 0,
     trace = [EmbedQuery \<lparr>handle_id = 0, model_name = ''sentence-transformers/all-mpnet-base-v2''\<rparr>
                ''What is the survival rate?'',
              Query ''titanic'' 26 5 True]\<rparr>)"
    by (simp add: retrieve_related_sections_def seq_def embed_query_def query_index_def call_def
        log_def demo_env_def empty_world_def)
  from get_result_no_sections [OF this] show ?thesis by simp
qed

text \<open>
  C4. When the embedding call and the query call succeed and every match carries
  metadata, the retriever makes exactly two calls, the embedding of the query text and
  one query for \<open>top_k = 5\<close> matches with metadata included, and returns one
  \<open>{Text, Page}\<close> pair per match, in the order of the response. A response without
  matches gives the empty list, not an error.
\<close>

theorem retrieve_related_sections_ranked:
  assumes "fault env (trace w) (EmbedQuery emb q) = None"
      and "fault env (trace w @ [EmbedQuery emb q])
             (Query idx (embedding_of env (model_name emb) q) 5 True) = None"
      and "map match_metadata
             (query_response env (trace w @ [EmbedQuery emb q]) idx
                (embedding_of env (model_name emb) q) 5 True) = map Some mds"
  shows "retrieve_related_sections env q emb (Some idx) w =
           (Inr (map section_of mds),
            w\<lparr>trace := trace w @ [EmbedQuery emb q,
                 Query idx (embedding_of env (model_name emb) q) 5 True]\<rparr>)
       \<and> (mds = [] \<longrightarrow> fst (retrieve_related_sections env q emb (Some idx) w) = Inr [])"
  using retrieve_ok [OF assms] by simp

theorem retrieve_related_sections_ranked_witness:
  "retrieve_related_sections demo_env ''What is the survival rate?''
     \<lparr>handle_id = 0, model_name = ''sentence-transformers/all-mpnet-base-v2''\<rparr>
     (Some ''titanic'') indexed_world =
   (Inr [\<lparr>Text = ''Survival rate was 38%.'', Page = 1\<rparr>,
         \<lparr>Text = ''The Titanic sank in 1912.'', Page = 0\<rparr>,
         \<lparr>Text = '''', Page = - 1\<rparr>],
    indexed_world\<lparr>trace := trace indexed_world @
       [EmbedQuery \<lparr>handle_id = 0, model_name = ''sentence-transformers/all-mpnet-base-v2''\<rparr>
          ''What is the survival rate?'',
        Query ''titanic'' 26 5 True]\<rparr>)"
proof -
  let ?emb = "\<lparr>handle_id = 0, model_name = ''sentence-transformers/all-mpnet-base-v2''\<rparr>"
  let ?q = "''What is the survival rate?''"
  have a: "fault demo_env (trace indexed_world) (EmbedQuery ?emb ?q) = None"
    by (simp add: demo_env_def)
  have b: "fault demo_env (trace indexed_world @ [EmbedQuery ?emb ?q])
             (Query ''titanic'' (embedding_of demo_env (model_name ?emb) ?q) 5 True) = None"
    by (simp add: demo_env_def)
  have c: "map match_metadata
             (query_response demo_env (trace indexed_world @ [EmbedQuery ?emb ?q]) ''titanic''
                (embedding_of demo_env (model_name ?emb) ?q) 5 True) =
           map Some [\<lparr>md_chunk_id = Some 1, md_text = Some ''Survival rate was 38%.''\<rparr>,
                     \<lparr>md_chunk_id = Some 0, md_text = Some ''The Titanic sank in 1912.''\<rparr>,
                     \<lparr>md_chunk_id = None, md_text = None\<rparr>]"
    by (simp add: demo_env_def indexed_world_def demo_matches_def)
  from retrieve_related_sections_ranked [OF a b c, THEN conjunct1] show ?thesis
    by (simp add: section_of_def demo_env_def)
qed

text \<open>
  C10. Under the same conditions the retriever returns normally, one pair per match, and
  for the match at any rank \<open>k\<close>: a metadata dictionary without the key \<open>text\<close> gives
  the empty string as \<open>Text\<close>, one without the key \<open>chunk_id\<close> gives \<open>-1\<close> as \<open>Page\<close>.
\<close>

theorem retrieve_related_sections_defaults:
  assumes "fault env (trace w) (EmbedQuery emb q) = None"
      and "fault env (trace w @ [EmbedQuery emb q])
             (Query idx (embedding_of env (model_name emb) q) 5 True) = None"
      and "map match_metadata
             (query_response env (trace w @ [EmbedQuery emb q]) idx
                (embedding_of env (model_name emb) q) 5 True) = map Some mds"
      and "k < length mds"
  shows "(case fst (retrieve_related_sections env q emb (Some idx) w) of
            Inl e \<Rightarrow> False
          | Inr results \<Rightarrow>
              length results = length mds
            \<and> (md_text (mds ! k) = None \<longrightarrow> Text (results ! k) = [])
            \<and> (md_chunk_id (mds ! k) = None \<longrightarrow> Page (results ! k) = - 1))"
  using retrieve_ok [OF assms(1-3)] assms(4) by (simp add: section_of_def)

theorem retrieve_related_sections_defaults_witness:
  "(case fst (retrieve_related_sections demo_env ''Who was the captain?''
       \<lparr>handle_id = 0, model_name = ''sentence-transformers/all-mpnet-base-v2''\<rparr>
       (Some ''titanic'') indexed_world) of
      Inl e \<Rightarrow> False
    | Inr results \<Rightarrow>
        length results = 3 \<and> Text (results ! 2) = [] \<and> Page (results ! 2) = - 1)"
proof -
  let ?emb = "\<lparr>handle_id = 0, model_name = ''sentence-transformers/all-mpnet-base-v2''\<rparr>"
  let ?q = "''Who was the captain?''"
  let ?mds = "[\<lparr>md_chunk_id = Some 1, md_text = Some ''Survival rate was 38%.''\<rparr>,
               \<lparr>md_chunk_id = Some 0, md_text = Some ''The Titanic sank in 1912.''\<rparr>,
               \<lparr>md_chunk_id = None, md_text = None\<rparr>]"
  have a: "fault demo_env (trace indexed_world) (EmbedQuery ?emb ?q) = None"
    by (simp add: demo_env_def)
  have b: "fault demo_env (trace indexed_world @ [EmbedQuery ?emb ?q])
             (Query ''titanic'' (embedding_of demo_env (model_name ?emb) ?q) 5 True) = None"
    by (simp add: demo_env_def)
  have c: "map match_metadata
             (query_response demo_env (trace indexed_world @ [EmbedQuery ?emb ?q]) ''titanic''
                (embedding_of demo_env (model_name ?emb) ?q) 5 True) = map Some ?mds"
    by (simp add: demo_env_def indexed_world_def demo_matches_def)
  have d: "2 < length ?mds" by simp
  from retrieve_related_sections_defaults [OF a b c d] show ?thesis
    by (simp split: sum.splits)
qed

lemma join_context:
  "join ''\<newline>\<newline>'' (map (\<lambda>res. ''Page '' @ str_int (Page res) @ '':\<newline>'' @ Text res) secs) =
   context_of secs"
  by (induction secs rule: context_of.induct) simp_all

text \<open>
  C6. \<open>generate_response\<close> makes one call, a chat completion with the model
  \<open>gpt-4o-mini\<close> and a single message of role \<open>user\<close> whose content is the prompt
  template filled with the context block (the sections as \<open>Page n:\<close>, a line break
  and the text, separated by blank lines) and with the query text as it is. When
  the call succeeds and answers at least one choice, the result is the content of the
  first choice, unchanged.
\<close>

theorem generate_response_prompt:
  assumes "fault env (trace w)
             (ChatCompletion ''gpt-4o-mini''
                [(''user'', prompt_of (context_of relevant_sections) user_query)]) = None"
      and "completion env (trace w) ''gpt-4o-mini''
             [(''user'', prompt_of (context_of relevant_sections) user_query)] = content # others"
  shows "generate_response env user_query relevant_sections w =
           (Inr content,
            w\<lparr>trace := trace w @
               [ChatCompletion ''gpt-4o-mini''
                  [(''user'', prompt_of (context_of relevant_sections) user_query)]]\<rparr>)"
proof -
  have prompt: "''\<newline>        You are a knowledgeable assistant specializing in Titanic Data Analysis.''
            @ ''\<newline>        Use the following context information to address the user''
            @ [CHR 0x27] @ ''s query.''
            @ ''\<newline>\<newline>        Context:\<newline>        '' @ context_of relevant_sections
            @ ''\<newline>\<newline>        User Query:\<newline>        '' @ user_query
            @ ''\<newline>\<newline>        Generate a clear, precise, and actionable response.\<newline>    ''
         = prompt_of (context_of relevant_sections) user_query"
    by (simp add: prompt_of_def)
  show ?thesis
    unfolding generate_response_def Let_def join_context prompt
    using assms
    by (simp add: seq_def chat_completions_create_def call_def log_def ret_def)
qed

theorem generate_response_prompt_witness:
  "generate_response demo_env ''What is the survival rate?''
     [\<lparr>Text = ''Survival rate was 38%.'', Page = 1\<rparr>, \<lparr>Text = '''', Page = - 1\<rparr>] empty_world =
   (Inr ''About 38% survived.'',
    \<lparr>index_names = [], next_handle = 0,
     trace = [ChatCompletion ''gpt-4o-mini''
       [(''user'',
         ''\<newline>        You are a knowledgeable assistant specializing in Titanic Data Analysis.\<newline>        Use the following context information to address the user'' @ [CHR 0x27] @ ''s query.\<newline>\<newline>        Context:\<newline>        Page 1:\<newline>Survival rate was 38%.\<newline>\<newline>Page -1:\<newline>\<newline>\<newline>        User Query:\<newline>        What is the survival rate?\<newline>\<newline>        Generate a clear, precise, and actionable response.\<newline>    '')]]\<rparr>)"
proof -
  let ?secs = "[\<lparr>Text = ''Survival rate was 38%.'', Page = 1\<rparr>, \<lparr>Text = '''', Page = - 1\<rparr>]"
  let ?q = "''What is the survival rate?''"
  have a: "fault demo_env (trace empty_world)
             (ChatCompletion ''gpt-4o-mini'' [(''user'', prompt_of (context_of ?secs) ?q)]) = None"
    by (simp add: demo_env_def)
  have b: "completion demo_env (trace empty_world) ''gpt-4o-mini''
             [(''user'', prompt_of (context_of ?secs) ?q)] = ''About 38% survived.'' # []"
    by (simp add: demo_env_def)
  from generate_response_prompt [OF a b] show ?thesis
    by (simp add: empty_world_def prompt_of_def str_int_def str_nat.simps digit_def)
qed

subsection \<open>The session\<close>







lemma initialize_pinecone_trace:
  "initialize_pinecone env w = (r, w1) \<Longrightarrow>
     trace w1 = trace w @ [ListIndexes]
   \<or> trace w1 = trace w @ [ListIndexes, CreateIndex ''titanic'' 768 ''euclidean'' ''aws'' ''us-east-1'']"
  by (auto simp: initialize_pinecone_def Let_def seq_def list_indexes_def create_index_def call_def
      ret_def log_def split: option.splits if_splits)

lemma start_button_initialized:
  assumes "index_initialized s"
      and "start_button env s w = (r, s', w')"
  shows "w' = snd (initialize_pinecone env w)"
  using assms
  by (auto simp: start_button_def Let_def split: prod.splits sum.splits)

lemma passes_log [simp]:
  "ingestion_passes (trace (log ev w)) = ingestion_passes (trace w) + (if is_load ev then 1 else 0)"
  by (simp add: ingestion_passes_def log_def)










lemma call_extends:
  "call env ev x u = (r, u') \<Longrightarrow> trace u' = trace u @ [ev]"
  by (auto simp: call_def log_def split: option.splits)

lemma upload_loop_extends:
  "upload_loop env emb index i chunks u = (r, u') \<Longrightarrow> \<exists>evs. trace u' = trace u @ evs"
proof (induction chunks arbitrary: i u)
  case Nil
  then show ?case by simp
next
  case (Cons c cs)
  obtain r1 wa where e: "embed_query env emb (page_content c) u = (r1, wa)"
    by (cases "embed_query env emb (page_content c) u") blast
  from call_extends [OF e [unfolded embed_query_def]]
  have wa: "trace wa = trace u @ [EmbedQuery emb (page_content c)]" .
  show ?case
  proof (cases r1)
    case (Inl err)
    with Cons.prems e wa show ?thesis by (simp add: Let_def)
  next
    case (Inr v)
    let ?vs = "[(''chunk-'' @ str_nat i, v,
                 \<lparr>md_chunk_id = Some (int i), md_text = Some (page_content c)\<rparr>)]"
    obtain r2 wb where u: "upsert env index ?vs wa = (r2, wb)"
      by (cases "upsert env index ?vs wa") blast
    have wb: "\<exists>evs. trace wb = trace wa @ evs"
      using u by (auto simp: upsert_def raise_def call_def log_def split: option.splits)
    show ?thesis
    proof (cases r2)
      case (Inl err)
      with Cons.prems e Inr u wa wb show ?thesis by (auto simp: Let_def)
    next
      case (Inr x)
      with Cons.prems e \<open>r1 = Inr v\<close> u
      have "upload_loop env emb index (Suc i) cs wb = (r, u')" by (simp add: Let_def)
      from Cons.IH [OF this] wa wb show ?thesis by auto
    qed
  qed
qed








lemma demo_landing:
  "app demo_env False ''hello'' new_session empty_world = (Inr None, landing_session, landing_world)"
  by (simp add: app_def Let_def new_embeddings_def call_def log_def demo_env_def new_session_def
      empty_world_def landing_session_def landing_world_def mpnet_def)

lemma demo_start:
  "app demo_env True '''' landing_session landing_world = (Inr None, chatbot_session, chatbot_world)"
  by (simp add: app_def Let_def start_button_def initialize_pinecone_def seq_def ret_def
      list_indexes_def create_index_def reading_document_def chunk_data_def
      generate_and_upload_embeddings_def new_embeddings_def embed_query_def upsert_def
      call_def log_def demo_env_def new_session_def landing_session_def landing_world_def
      chatbot_session_def chatbot_world_def mpnet_def str_nat.simps digit_def)







subsection \<open>The embedding objects\<close>

lemma call_same:
  assumes "same_model_and_dimension ev" and "list_all same_model_and_dimension (trace w)"
      and "call env ev x w = (r, w')"
  shows "list_all same_model_and_dimension (trace w')"
  using assms by (auto simp: call_def log_def split: option.splits)

lemma new_embeddings_same:
  assumes "list_all same_model_and_dimension (trace w)"
      and "new_embeddings env ''sentence-transformers/all-mpnet-base-v2'' w = (r, w')"
  shows "list_all same_model_and_dimension (trace w')
       \<and> (\<forall>emb. r = Inr emb \<longrightarrow> model_name emb = mpnet)"
  using assms
  by (auto simp: new_embeddings_def call_def log_def mpnet_def split: option.splits)

lemma initialize_pinecone_same:
  assumes "list_all same_model_and_dimension (trace w)"
      and "initialize_pinecone env w = (r, w')"
  shows "list_all same_model_and_dimension (trace w')"
  using initialize_pinecone_trace [OF assms(2)] assms(1) by auto

lemma upload_loop_same:
  assumes "model_name emb = mpnet"
  shows "list_all same_model_and_dimension (trace w) \<Longrightarrow>
         upload_loop env emb index i chunks w = (r, w') \<Longrightarrow>
         list_all same_model_and_dimension (trace w')"
proof (induction chunks arbitrary: i w)
  case Nil
  then show ?case by simp
next
  case (Cons c cs)
  obtain r1 wa where e: "embed_query env emb (page_content c) w = (r1, wa)"
    by (cases "embed_query env emb (page_content c) w") blast
  have wa: "list_all same_model_and_dimension (trace wa)"
    using call_same [OF _ Cons.prems(1) e [unfolded embed_query_def]] assms by simp
  show ?case
  proof (cases r1)
    case (Inl err)
    with Cons.prems e wa show ?thesis by (simp add: Let_def)
  next
    case (Inr v)
    let ?vs = "[(''chunk-'' @ str_nat i, v,
                 \<lparr>md_chunk_id = Some (int i), md_text = Some (page_content c)\<rparr>)]"
    obtain r2 wb where u: "upsert env index ?vs wa = (r2, wb)"
      by (cases "upsert env index ?vs wa") blast
    have wb: "list_all same_model_and_dimension (trace wb)"
      using u wa
      by (auto simp: upsert_def raise_def call_def log_def split: option.splits)
    show ?thesis
    proof (cases r2)
      case (Inl err)
      with Cons.prems e Inr u wb show ?thesis by (simp add: Let_def)
    next
      case (Inr x)
      with Cons.prems e \<open>r1 = Inr v\<close> u
      have "upload_loop env emb index (Suc i) cs wb = (r, w')" by (simp add: Let_def)
      from Cons.IH [OF wb this] show ?thesis .
    qed
  qed
qed

lemma generate_and_upload_same:
  assumes "list_all same_model_and_dimension (trace w)"
      and "generate_and_upload_embeddings env chunks index w = (r, w')"
  shows "list_all same_model_and_dimension (trace w')"
proof -
  obtain r0 w0 where n: "new_embeddings env ''sentence-transformers/all-mpnet-base-v2'' w = (r0, w0)"
    by (cases "new_embeddings env ''sentence-transformers/all-mpnet-base-v2'' w") blast
  note w0 = new_embeddings_same [OF assms(1) n]
  show ?thesis
  proof (cases r0)
    case (Inl e)
    with assms n w0 show ?thesis by (simp add: generate_and_upload_embeddings_def seq_def)
  next
    case (Inr emb)
    with assms n have "upload_loop env emb index 0 chunks w0 = (r, w')"
      by (simp add: generate_and_upload_embeddings_def seq_def)
    from upload_loop_same [OF _ _ this] w0 Inr show ?thesis by simp
  qed
qed

lemma get_result_same:
  assumes "model_name emb = mpnet" and "list_all same_model_and_dimension (trace w)"
      and "get_result env q emb index w = (r, w')"
  shows "list_all same_model_and_dimension (trace w')"
  using assms
  by (auto simp: get_result_def retrieve_related_sections_def generate_response_def Let_def
      seq_def ret_def raise_def embed_query_def query_index_def chat_completions_create_def
      call_def log_def split: option.splits sum.splits if_splits list.splits)

lemma start_button_same:
  assumes "list_all same_model_and_dimension (trace w)"
      and "start_button env s w = (r, s', w')"
  shows "list_all same_model_and_dimension (trace w') \<and> embeddings s' = embeddings s"
proof -
  obtain r0 w0 where i: "initialize_pinecone env w = (r0, w0)"
    by (cases "initialize_pinecone env w") blast
  note w0 = initialize_pinecone_same [OF assms(1) i]
  show ?thesis
  proof (cases r0)
    case (Inl e)
    with assms i w0 show ?thesis by (auto simp: start_button_def)
  next
    case (Inr name)
    let ?file = "''Knowledge_base/titanic_final_eda.pdf''"
    obtain rd wd where d: "reading_document env ?file w0 = (rd, wd)"
      by (cases "reading_document env ?file w0") blast
    have wd: "list_all same_model_and_dimension (trace wd)"
      using call_same [OF _ w0 d [unfolded reading_document_def]] by simp
    show ?thesis
    proof (cases rd)
      case (Inl e)
      with assms i \<open>r0 = Inr name\<close> d wd w0 show ?thesis
        by (auto simp: start_button_def Let_def seq_def split: if_splits)
    next
      case (Inr doc)
      show ?thesis
      proof (cases "split_documents env 1000 50 doc")
        case (Inl e)
        with assms i \<open>r0 = Inr name\<close> d \<open>rd = Inr doc\<close> wd w0 show ?thesis
          by (auto simp: start_button_def Let_def seq_def chunk_data_def split: if_splits)
      next
        case (Inr chunks)
        obtain rg wg where g: "generate_and_upload_embeddings env chunks (Some name) wd = (rg, wg)"
          by (cases "generate_and_upload_embeddings env chunks (Some name) wd") blast
        note wg = generate_and_upload_same [OF wd g]
        from assms i \<open>r0 = Inr name\<close> d \<open>rd = Inr doc\<close> Inr g wg wd w0 show ?thesis
          by (cases rg) (auto simp: start_button_def Let_def seq_def chunk_data_def split: if_splits)
      qed
    qed
  qed
qed

lemma app_same:
  assumes "list_all same_model_and_dimension (trace w)" and "handle_ok (embeddings s)"
      and "app env clicked q s w = (r, s', w')"
  shows "list_all same_model_and_dimension (trace w') \<and> handle_ok (embeddings s')
       \<and> (embeddings s \<noteq> None \<longrightarrow> embeddings s' = embeddings s)"
proof -
  obtain r0 w0 where ne: "(case embeddings s of
              None \<Rightarrow> new_embeddings env ''sentence-transformers/all-mpnet-base-v2'' w
            | Some emb \<Rightarrow> (Inr emb, w)) = (r0, w0)"
    by (cases "(case embeddings s of
              None \<Rightarrow> new_embeddings env ''sentence-transformers/all-mpnet-base-v2'' w
            | Some emb \<Rightarrow> (Inr emb, w))") blast
  have w0: "list_all same_model_and_dimension (trace w0)"
    and r0: "\<forall>emb. r0 = Inr emb \<longrightarrow> model_name emb = mpnet"
    and keep: "\<forall>emb. r0 = Inr emb \<longrightarrow> embeddings s \<noteq> None \<longrightarrow> embeddings s = Some emb"
    using ne assms(1,2) new_embeddings_same [of w env r0 w0]
    by (auto simp: handle_ok_def split: option.splits)
  show ?thesis
  proof (cases r0)
    case (Inl e)
    with assms ne w0 show ?thesis by (auto simp: app_def)
  next
    case (Inr emb)
    let ?s0 = "s\<lparr>embeddings := Some emb\<rparr>"
    obtain rb sb wb where b: "(if page ?s0 = first_page \<and> clicked then start_button env ?s0 w0
                 else (Inr (), ?s0, w0)) = (rb, sb, wb)"
      by (cases "(if page ?s0 = first_page \<and> clicked then start_button env ?s0 w0
                 else (Inr (), ?s0, w0))") blast
    have wb: "list_all same_model_and_dimension (trace wb)" and sb: "embeddings sb = Some emb"
      using b start_button_same [of w0 env ?s0 rb sb wb] w0 by (auto split: if_splits)
    obtain rg wg where g: "get_result env q emb (pinecone_index sb) wb = (rg, wg)"
      by (cases "get_result env q emb (pinecone_index sb) wb") blast
    have wg: "list_all same_model_and_dimension (trace wg)"
      using get_result_same [OF _ wb g] r0 Inr by simp
    from assms(3) ne Inr b g have "s' = sb" and "w' = wb \<or> w' = wg"
      by (auto simp: app_def Let_def split: if_splits sum.splits)
    with wb wg sb r0 keep Inr show ?thesis by (auto simp: handle_ok_def)
  qed
qed

lemma session_same:
  assumes "list_all same_model_and_dimension (trace w)" and "handle_ok (embeddings s)"
      and "session env inputs s w = (s', w')"
  shows "list_all same_model_and_dimension (trace w') \<and> handle_ok (embeddings s')
       \<and> (embeddings s \<noteq> None \<longrightarrow> embeddings s' = embeddings s)"
  using assms
proof (induction inputs arbitrary: s w)
  case Nil
  then show ?case by simp
next
  case (Cons i inputs)
  obtain clicked q where i: "i = (clicked, q)" by (cases i)
  obtain r s1 w1 where run: "app env clicked q s w = (r, s1, w1)"
    by (cases "app env clicked q s w") blast
  note one = app_same [OF Cons.prems(1,2) run]
  from Cons.prems(3) have "session env inputs s1 w1 = (s', w')" by (simp add: i run)
  from Cons.IH [OF _ _ this] one show ?case by auto
qed

lemma app_query_handle:
  assumes "page s = chatbot" and "embeddings s = Some emb" and "q \<noteq> []"
      and "app env clicked q s w = (r, s', w')"
  shows "take (Suc (length (trace w))) (trace w') = trace w @ [EmbedQuery emb q]"
  using assms
  by (auto simp: app_def Let_def get_result_def retrieve_related_sections_def
      generate_response_def seq_def ret_def raise_def embed_query_def query_index_def
      chat_completions_create_def call_def log_def
      split: option.splits sum.splits if_splits list.splits prod.splits)

lemma demo_query:
  "embed_handles (trace (snd (snd (app demo_env False ''What is the survival rate?''
                                     chatbot_session chatbot_world)))) = [1, 1, 0]
   \<and> length (filter is_new_embeddings
        (trace (snd (snd (app demo_env False ''What is the survival rate?''
                            chatbot_session chatbot_world))))) = 2
   \<and> fst (snd (app demo_env False ''What is the survival rate?'' chatbot_session chatbot_world)) =
       chatbot_session"
  by (simp add: app_def Let_def get_result_def retrieve_related_sections_def
      generate_response_def seq_def ret_def embed_query_def query_index_def
      chat_completions_create_def call_def log_def demo_env_def demo_matches_def
      chatbot_session_def chatbot_world_def mpnet_def)

text \<open>
  C8 as stated does not hold: the session below constructs two embedding objects, and
  its three embedding calls go to the object numbered 1 for the two chunks and to the object
  numbered 0, the one of the session, for the query.
\<close>

theorem single_embedding_handle_counterexample:
  "embed_handles
     (trace (snd (session demo_env
        [(False, ''hello''), (True, ''''), (False, ''What is the survival rate?'')]
        new_session empty_world))) = [1, 1, 0]
   \<and> length (filter is_new_embeddings
       (trace (snd (session demo_env
          [(False, ''hello''), (True, ''''), (False, ''What is the survival rate?'')]
          new_session empty_world)))) = 2
   \<and> embeddings (fst (session demo_env
        [(False, ''hello''), (True, ''''), (False, ''What is the survival rate?'')]
        new_session empty_world)) =
       Some \<lparr>handle_id = 0, model_name = ''sentence-transformers/all-mpnet-base-v2''\<rparr>"
proof -
  let ?run = "app demo_env False ''What is the survival rate?'' chatbot_session chatbot_world"
  have "session demo_env
        [(False, ''hello''), (True, ''''), (False, ''What is the survival rate?'')]
        new_session empty_world = snd ?run"
    by (simp add: demo_landing demo_start split: prod.splits)
  with demo_query show ?thesis
    by (simp add: chatbot_session_def mpnet_def)
qed

lemma ingestion_own_handle:
  assumes "fault env (trace w) (NewEmbeddings mpnet) = None"
      and "generate_and_upload_embeddings env (c # cs) index w = (r, w')"
  shows "\<exists>rest. trace w' =
           trace w @ NewEmbeddings mpnet #
             EmbedQuery \<lparr>handle_id = next_handle w, model_name = mpnet\<rparr> (page_content c) # rest"
proof -
  let ?emb = "\<lparr>handle_id = next_handle w, model_name = mpnet\<rparr>"
  let ?w0 = "w\<lparr>trace := trace w @ [NewEmbeddings mpnet], next_handle := Suc (next_handle w)\<rparr>"
  have start: "generate_and_upload_embeddings env (c # cs) index w =
                 upload_loop env ?emb index 0 (c # cs) ?w0"
    using assms(1)
    by (simp add: generate_and_upload_embeddings_def seq_def new_embeddings_def call_def log_def
        mpnet_def [symmetric])
  obtain r1 wa where e: "embed_query env ?emb (page_content c) ?w0 = (r1, wa)"
    by (cases "embed_query env ?emb (page_content c) ?w0") blast
  from call_extends [OF e [unfolded embed_query_def]]
  have wa: "trace wa = trace w @ [NewEmbeddings mpnet, EmbedQuery ?emb (page_content c)]"
    by simp
  show ?thesis
  proof (cases r1)
    case (Inl err)
    with assms(2) e wa show ?thesis by (simp add: start Let_def)
  next
    case (Inr v)
    let ?vs = "[(''chunk-'' @ str_nat 0, v,
                 \<lparr>md_chunk_id = Some (int 0), md_text = Some (page_content c)\<rparr>)]"
    obtain r2 wb where u: "upsert env index ?vs wa = (r2, wb)"
      by (cases "upsert env index ?vs wa") blast
    have wb: "\<exists>evs. trace wb = trace wa @ evs"
      using u by (auto simp: upsert_def raise_def call_def log_def split: option.splits)
    show ?thesis
    proof (cases r2)
      case (Inl err)
      with assms(2) e Inr u wa wb show ?thesis by (auto simp: start Let_def)
    next
      case (Inr x)
      with assms(2) e \<open>r1 = Inr v\<close> u
      have "upload_loop env ?emb index (Suc 0) cs wb = (r, w')" by (simp add: start Let_def)
      from upload_loop_extends [OF this] wa wb show ?thesis by auto
    qed
  qed
qed

text \<open>
  C8, as amended. (1) In every session, every embedding object is constructed for the model
  \<open>sentence-transformers/all-mpnet-base-v2\<close>, every embedding call, of ingestion and of
  queries alike, goes to an object of that model, and every index is created with
  dimension 768; the embedding object of the session, once constructed, is never replaced.
  (2) A query on the chatbot page is embedded with the object of the session. (3) Ingestion
  does not use that object: it constructs one of its own and embeds its chunks with it.
\<close>

theorem embedding_model_shared:
  shows "(list_all same_model_and_dimension (trace w) \<and> handle_ok (embeddings s)
          \<and> session env inputs s w = (s', w') \<longrightarrow>
            list_all same_model_and_dimension (trace w')
          \<and> handle_ok (embeddings s')
          \<and> (embeddings s \<noteq> None \<longrightarrow> embeddings s' = embeddings s))
       \<and> (page s = chatbot \<and> embeddings s = Some emb \<and> q \<noteq> []
          \<and> app env clicked q s w = (r, s_q, w_q) \<longrightarrow>
            take (Suc (length (trace w))) (trace w_q) = trace w @ [EmbedQuery emb q])
       \<and> (fault env (trace w) (NewEmbeddings mpnet) = None
          \<and> generate_and_upload_embeddings env (c # cs) index w = (r_i, w_i) \<longrightarrow>
            take (Suc (Suc (length (trace w)))) (trace w_i) =
              trace w @ [NewEmbeddings mpnet,
                         EmbedQuery \<lparr>handle_id = next_handle w, model_name = mpnet\<rparr>
                           (page_content c)])"
proof (intro conjI impI)
  assume a: "list_all same_model_and_dimension (trace w) \<and> handle_ok (embeddings s)
          \<and> session env inputs s w = (s', w')"
  from session_same [of w s env inputs s' w'] a
  show "list_all same_model_and_dimension (trace w')" and "handle_ok (embeddings s')"
    by simp_all
  assume "embeddings s \<noteq> None"
  with session_same [of w s env inputs s' w'] a show "embeddings s' = embeddings s" by simp
next
  assume "page s = chatbot \<and> embeddings s = Some emb \<and> q \<noteq> []
          \<and> app env clicked q s w = (r, s_q, w_q)"
  then show "take (Suc (length (trace w))) (trace w_q) = trace w @ [EmbedQuery emb q]"
    using app_query_handle [of s emb q env clicked w r s_q w_q] by simp
next
  assume "fault env (trace w) (NewEmbeddings mpnet) = None
          \<and> generate_and_upload_embeddings env (c # cs) index w = (r_i, w_i)"
  then obtain rest where "trace w_i =
           trace w @ NewEmbeddings mpnet #
             EmbedQuery \<lparr>handle_id = next_handle w, model_name = mpnet\<rparr> (page_content c) # rest"
    using ingestion_own_handle [of env w c cs index r_i w_i] by blast
  then show "take (Suc (Suc (length (trace w)))) (trace w_i) =
              trace w @ [NewEmbeddings mpnet,
                         EmbedQuery \<lparr>handle_id = next_handle w, model_name = mpnet\<rparr>
                           (page_content c)]"
    by simp
qed

theorem embedding_model_shared_witness:
  "list_all same_model_and_dimension
     (trace (snd (session demo_env
        [(False, ''hello''), (True, []), (False, ''What is the survival rate?'')]
        new_session empty_world)))
   \<and> take 10 (trace (snd (snd (app demo_env False ''What is the survival rate?''
                                 chatbot_session chatbot_world)))) =
       trace chatbot_world @
         [EmbedQuery \<lparr>handle_id = 0, model_name = mpnet\<rparr> ''What is the survival rate?'']
   \<and> take 3 (trace (snd (generate_and_upload_embeddings demo_env
                 [\<lparr>page_content = ''The Titanic sank in 1912.'', source_page = 0\<rparr>]
                 (Some ''titanic'') landing_world))) =
       trace landing_world @
         [NewEmbeddings mpnet,
          EmbedQuery \<lparr>handle_id = 1, model_name = mpnet\<rparr> ''The Titanic sank in 1912.'']"
proof -
  let ?inputs = "[(False, ''hello''), (True, []), (False, ''What is the survival rate?'')]"
  let ?q = "''What is the survival rate?''"
  let ?d = "\<lparr>page_content = ''The Titanic sank in 1912.'', source_page = 0\<rparr>"
  have a0: "list_all same_model_and_dimension (trace empty_world) \<and> handle_ok (embeddings new_session)
          \<and> session demo_env ?inputs new_session empty_world =
              (fst (session demo_env ?inputs new_session empty_world),
               snd (session demo_env ?inputs new_session empty_world))"
    by (simp add: empty_world_def new_session_def handle_ok_def)
  note A = embedding_model_shared
    [where w = empty_world and s = new_session and env = demo_env and inputs = ?inputs,
     THEN conjunct1, THEN mp, OF a0, THEN conjunct1]
  have b0: "page chatbot_session = chatbot
          \<and> embeddings chatbot_session = Some \<lparr>handle_id = 0, model_name = mpnet\<rparr> \<and> ?q \<noteq> []
          \<and> app demo_env False ?q chatbot_session chatbot_world =
              (fst (app demo_env False ?q chatbot_session chatbot_world),
               fst (snd (app demo_env False ?q chatbot_session chatbot_world)),
               snd (snd (app demo_env False ?q chatbot_session chatbot_world)))"
    by (simp add: chatbot_session_def)
  note B = embedding_model_shared
    [where w = chatbot_world and s = chatbot_session and env = demo_env and q = ?q
       and clicked = False, THEN conjunct2, THEN conjunct1, THEN mp, OF b0]
  have c0: "fault demo_env (trace landing_world) (NewEmbeddings mpnet) = None
          \<and> generate_and_upload_embeddings demo_env (?d # []) (Some ''titanic'') landing_world =
              (fst (generate_and_upload_embeddings demo_env (?d # []) (Some ''titanic'') landing_world),
               snd (generate_and_upload_embeddings demo_env (?d # []) (Some ''titanic'') landing_world))"
    by (simp add: demo_env_def)
  note C = embedding_model_shared
    [where w = landing_world and env = demo_env, THEN conjunct2, THEN conjunct2, THEN mp, OF c0]
  have lc: "length (trace chatbot_world) = 9" by (simp add: chatbot_world_def)
  have ll: "length (trace landing_world) = 1" and nl: "next_handle landing_world = 1"
    by (simp_all add: landing_world_def)
  from A B C show ?thesis
    unfolding lc ll nl by (simp add: eval_nat_numeral)
qed

subsection \<open>Chunking\<close>

lemma sliding_windows_last:
  "length txt \<le> chunk_size \<Longrightarrow> sliding_windows chunk_size chunk_overlap txt = [txt]"
  by (simp add: sliding_windows.simps)

lemma sliding_windows_step:
  "chunk_overlap < chunk_size \<Longrightarrow> chunk_size < length txt \<Longrightarrow>
   sliding_windows chunk_size chunk_overlap txt =
     take chunk_size txt
     # sliding_windows chunk_size chunk_overlap (drop (chunk_size - chunk_overlap) txt)"
  by (subst sliding_windows.simps) simp

lemma sliding_windows_2200:
  assumes "length txt = 2200"
  shows "sliding_windows 1000 50 txt = [take 1000 txt, take 1000 (drop 950 txt), drop 1900 txt]"
proof -
  have "sliding_windows 1000 50 txt = take 1000 txt # sliding_windows 1000 50 (drop 950 txt)"
    using sliding_windows_step [of 50 1000 "txt"] assms by simp
  also have "sliding_windows 1000 50 (drop 950 txt) =
               take 1000 (drop 950 txt) # sliding_windows 1000 50 (drop 950 (drop 950 txt))"
    using sliding_windows_step [of 50 1000 "drop 950 txt"] assms by simp
  also have "sliding_windows 1000 50 (drop 950 (drop 950 txt)) = [drop 1900 txt]"
    using sliding_windows_last [of "drop 950 (drop 950 txt)" 1000 50] assms by simp
  finally show ?thesis .
qed

text \<open>
  C9 as stated does not hold: of a page of 2200 characters the sliding window of 1000
  characters with an overlap of 50 cuts chunks of 1000, 1000 and 300 characters, not 200.
\<close>

theorem chunk_data_2200_counterexample:
  "chunk_lengths (fst (chunk_data sliding_env
      [\<lparr>page_content = replicate 2200 CHR ''a'', source_page = 0\<rparr>] 1000 50 empty_world)) =
     [1000, 1000, 300]
   \<and> chunk_lengths (fst (chunk_data sliding_env
      [\<lparr>page_content = replicate 2200 CHR ''a'', source_page = 0\<rparr>] 1000 50 empty_world)) \<noteq>
     [1000, 1000, 200]"
  by (simp add: chunk_data_def sliding_env_def sliding_split_def sliding_windows_2200
      chunk_lengths_def)

text \<open>
  C9, as amended. With the sliding-window splitter, \<open>chunk_data\<close> with chunk size 1000 and
  overlap 50 cuts a document of one page of 2200 characters into exactly three chunks:
  the characters 0 to 999, 950 to 1949 and 1900 to 2199, of lengths 1000, 1000 and 300,
  none longer than the chunk size. Ingestion numbers them \<open>chunk-0\<close> to \<open>chunk-2\<close>, and
  the first 50 characters of a chunk are the last 50 of the chunk before it.
\<close>

theorem chunk_data_2200:
  assumes "split_documents env = sliding_split" and "length txt = 2200"
      and "r = fst (chunk_data env [\<lparr>page_content = txt, source_page = p\<rparr>] 1000 50 w)"
  shows "r = Inr [\<lparr>page_content = take 1000 txt, source_page = p\<rparr>,
                  \<lparr>page_content = take 1000 (drop 950 txt), source_page = p\<rparr>,
                  \<lparr>page_content = drop 1900 txt, source_page = p\<rparr>]
       \<and> chunk_lengths r = [1000, 1000, 300]
       \<and> chunk_ids r = [''chunk-0'', ''chunk-1'', ''chunk-2'']
       \<and> take 50 (take 1000 (drop 950 txt)) = drop 950 (take 1000 txt)
       \<and> take 50 (drop 1900 txt) = drop 950 (take 1000 (drop 950 txt))"
proof -
  have r: "r = Inr [\<lparr>page_content = take 1000 txt, source_page = p\<rparr>,
                    \<lparr>page_content = take 1000 (drop 950 txt), source_page = p\<rparr>,
                    \<lparr>page_content = drop 1900 txt, source_page = p\<rparr>]"
    using assms by (simp add: chunk_data_def sliding_split_def sliding_windows_2200)
  have len: "chunk_lengths r = [1000, 1000, 300]"
    using assms(2) by (simp add: r chunk_lengths_def)
  have ids: "chunk_ids r = [''chunk-0'', ''chunk-1'', ''chunk-2'']"
    by (simp add: r chunk_ids_def upt_conv_Cons str_nat.simps digit_def)
  have o1: "take 50 (take 1000 (drop 950 txt)) = drop 950 (take 1000 txt)"
    by (simp add: drop_take)
  have o2: "take 50 (drop 1900 txt) = drop 950 (take 1000 (drop 950 txt))"
    by (simp add: drop_take)
  from r len ids o1 o2 show ?thesis by blast
qed

theorem chunk_data_2200_witness:
  "fst (chunk_data sliding_env
      [\<lparr>page_content = replicate 2200 CHR ''a'', source_page = 0\<rparr>] 1000 50 empty_world) =
     Inr [\<lparr>page_content = replicate 1000 CHR ''a'', source_page = 0\<rparr>,
          \<lparr>page_content = replicate 1000 CHR ''a'', source_page = 0\<rparr>,
          \<lparr>page_content = replicate 300 CHR ''a'', source_page = 0\<rparr>]
   \<and> chunk_ids (fst (chunk_data sliding_env
      [\<lparr>page_content = replicate 2200 CHR ''a'', source_page = 0\<rparr>] 1000 50 empty_world)) =
     [''chunk-0'', ''chunk-1'', ''chunk-2'']"
proof -
  have a: "split_documents sliding_env = sliding_split" by (simp add: sliding_env_def)
  have b: "length (replicate 2200 CHR ''a'') = 2200" by simp
  note run = chunk_data_2200 [OF a b refl, of 0 empty_world]
  show ?thesis
  proof (intro conjI)
    from run [THEN conjunct1]
    show "fst (chunk_data sliding_env
            [\<lparr>page_content = replicate 2200 CHR ''a'', source_page = 0\<rparr>] 1000 50 empty_world) =
          Inr [\<lparr>page_content = replicate 1000 CHR ''a'', source_page = 0\<rparr>,
               \<lparr>page_content = replicate 1000 CHR ''a'', source_page = 0\<rparr>,
               \<lparr>page_content = replicate 300 CHR ''a'', source_page = 0\<rparr>]"
      by simp
    from run [THEN conjunct2, THEN conjunct2, THEN conjunct1]
    show "chunk_ids (fst (chunk_data sliding_env
            [\<lparr>page_content = replicate 2200 CHR ''a'', source_page = 0\<rparr>] 1000 50 empty_world)) =
          [''chunk-0'', ''chunk-1'', ''chunk-2'']" .
  qed
qed

end
